theory Spec2Isabelle
  imports Main "HOL-Library.Word"
begin

unbundle bit_operations_syntax

section \<open>The C library functions the parser calls\<close>

text \<open>
  \<^verbatim>\<open>unsigned long\<close> and \<^verbatim>\<open>long\<close> are 64 bits wide (Linux, LP64). A token of
  the configuration is a NUL-terminated C string; it is modelled by the characters
  before the terminator.
\<close>

type_synonym ulong = "64 word"

definition ULONG_MAX :: nat where
  "ULONG_MAX = 2 ^ 64 - 1"

definition LONG_MAX :: int where
  "LONG_MAX = 2 ^ 63 - 1"

definition LONG_MIN :: int where
  "LONG_MIN = - (2 ^ 63)"

definition isspace :: "char \<Rightarrow> bool" where
  "isspace ch = (ch = CHR '' '' \<or> (9 \<le> (of_char ch :: nat) \<and> (of_char ch :: nat) \<le> 13))"

definition isdigit :: "char \<Rightarrow> bool" where
  "isdigit ch = (48 \<le> (of_char ch :: nat) \<and> (of_char ch :: nat) \<le> 57)"

text \<open>The number a row of decimal digits writes, read left to right.\<close>

primrec decimal :: "nat \<Rightarrow> string \<Rightarrow> nat" where
  "decimal a [] = a"
| "decimal a (d # ds) = decimal (a * 10 + (of_char d - 48)) ds"

text \<open>
  The subject sequence of \<^verbatim>\<open>strtoul\<close> and \<^verbatim>\<open>strtol\<close> in base 10: white space,
  an optional sign, then digits. The result is the sign, the digits and what follows
  the digits.
\<close>

definition subject :: "string \<Rightarrow> bool \<times> string \<times> string" where
  "subject nptr =
    (let s = dropWhile isspace nptr;
         signed = (s \<noteq> [] \<and> (hd s = CHR ''-'' \<or> hd s = CHR ''+''));
         t = (if signed then tl s else s)
     in (s \<noteq> [] \<and> hd s = CHR ''-'', takeWhile isdigit t, dropWhile isdigit t))"

text \<open>
  \<^verbatim>\<open>strtoul(nptr, &endptr, 10)\<close>: the converted number and the string at
  \<^verbatim>\<open>endptr\<close>. With no digits nothing is converted and \<^verbatim>\<open>endptr\<close> is \<^verbatim>\<open>nptr\<close>;
  a number past \<^verbatim>\<open>ULONG_MAX\<close> gives \<^verbatim>\<open>ULONG_MAX\<close>; a minus sign negates the
  number in the unsigned type.
\<close>

definition strtoul :: "string \<Rightarrow> ulong \<times> string" where
  "strtoul nptr =
    (case subject nptr of (neg, ds, rest) \<Rightarrow>
       if ds = [] then (0, nptr)
       else if decimal 0 ds > ULONG_MAX then (word_of_nat ULONG_MAX, rest)
       else (if neg then - word_of_nat (decimal 0 ds) else word_of_nat (decimal 0 ds), rest))"

text \<open>\<^verbatim>\<open>strtol(nptr, &endptr, 10)\<close>: the result saturates at the ends of \<^verbatim>\<open>long\<close>.\<close>

definition strtol :: "string \<Rightarrow> int \<times> string" where
  "strtol nptr =
    (case subject nptr of (neg, ds, rest) \<Rightarrow>
       if ds = [] then (0, nptr)
       else (let n = (if neg then - int (decimal 0 ds) else int (decimal 0 ds))
             in (if n < LONG_MIN then LONG_MIN else if n > LONG_MAX then LONG_MAX else n, rest)))"

text \<open>\<^verbatim>\<open>struct sockaddr_storage\<close>: the family, and the address bytes after it.\<close>

record sockaddr_storage =
  ss_family :: nat
  ss_data :: string

definition AF_UNSPEC :: nat where
  "AF_UNSPEC = 0"

definition AF_INET :: nat where
  "AF_INET = 2"

definition AF_INET6 :: nat where
  "AF_INET6 = 10"

text \<open>Memory from \<^verbatim>\<open>MALLOC\<close> is zeroed: an address nobody has written has family 0.\<close>

definition zero_addr :: sockaddr_storage where
  "zero_addr = \<lparr>ss_family = 0, ss_data = []\<rparr>"

section \<open>Data of the three roles\<close>

text \<open>
  Modelled from the spec: the declarations of \<^verbatim>\<open>bfd_t\<close>, \<^verbatim>\<open>vrrp_tracked_bfd_t\<close> and
  \<^verbatim>\<open>checker_tracked_bfd_t\<close> are in headers that are not part of the source. The
  fields are the ones \<^verbatim>\<open>bfd_parser.c\<close> reads and writes, with the types of the
  spec's data model: the intervals are numbers of microseconds, \<^verbatim>\<open>ttl\<close> and
  \<^verbatim>\<open>max_hops\<close> are integers, the weight is a signed integer.
\<close>

record bfd_t =
  iname :: string
  nbr_addr :: sockaddr_storage
  src_addr :: sockaddr_storage
  local_min_rx_intv :: nat
  local_min_tx_intv :: nat
  local_idle_tx_intv :: nat
  local_detect_mult :: nat
  "passive" :: bool
  ttl :: int
  max_hops :: int
  vrrp :: bool
  checker :: bool

record vrrp_tracked_bfd_t =
  bname :: string
  weight :: int
  bfd_up :: bool

record checker_tracked_bfd_t =
  checker_bname :: string

text \<open>
  What the source takes from headers and from the build: the two feature macros, the
  limits, the positions of the two role bits in \<^verbatim>\<open>specified_event_processes\<close>, the
  size of the character array \<^verbatim>\<open>bname\<close> inside \<^verbatim>\<open>vrrp_tracked_bfd_t\<close>, the
  address parser \<^verbatim>\<open>inet_stosockaddr\<close> (\<^verbatim>\<open>None\<close> for a negative return), and the
  values \<^verbatim>\<open>alloc_bfd\<close> gives the fields of a fresh instance. They are parameters of
  every function below.
\<close>

record bfd_env =
  WITH_VRRP :: bool
  WITH_LVS :: bool
  BFD_INAME_MAX :: nat
  BFD_CONTROL_PORT :: string
  BFD_MINRX_MIN :: nat
  BFD_MINRX_MAX :: nat
  BFD_MINRX_MAX_SENSIBLE :: nat
  BFD_MINTX_MIN :: nat
  BFD_MINTX_MAX :: nat
  BFD_MINTX_MAX_SENSIBLE :: nat
  BFD_IDLETX_MIN :: nat
  BFD_IDLETX_MAX :: nat
  BFD_IDLETX_MAX_SENSIBLE :: nat
  BFD_MULTIPLIER_MIN :: nat
  BFD_MULTIPLIER_MAX :: nat
  BFD_TTL_MAX :: nat
  BFD_CONTROL_TTL :: int
  BFD_CONTROL_HOPLIMIT :: int
  DAEMON_VRRP :: nat
  DAEMON_CHECKERS :: nat
  VRRP_BNAME_SIZE :: nat
  inet_stosockaddr :: "string \<Rightarrow> string option \<Rightarrow> sockaddr_storage option"
  fresh_bfd :: bfd_t

datatype log_level = LOG_ERR | LOG_INFO

text \<open>
  The state the handlers share: the data sets of the three roles (a \<^verbatim>\<open>NULL\<close>
  pointer is \<^verbatim>\<open>None\<close>), the static \<^verbatim>\<open>specified_event_processes\<close>, the flag
  \<^verbatim>\<open>have_bfd_instances\<close>, whether \<^verbatim>\<open>skip_block\<close> has been called for the block
  being read, and the messages logged.
\<close>

record pstate =
  bfd_data :: "bfd_t list option"
  vrrp_data :: "vrrp_tracked_bfd_t list option"
  check_data :: "checker_tracked_bfd_t list option"
  specified_event_processes :: ulong
  have_bfd_instances :: bool
  skip_pending :: bool
  messages :: "(log_level \<times> string) list"

text \<open>A failed \<^verbatim>\<open>assert\<close>, or an access through \<^verbatim>\<open>NULL\<close> or past the end of a vector
  or of an array (undefined behaviour in C).\<close>

datatype fault = AssertionFailed | InvalidAccess

definition log_message :: "log_level \<Rightarrow> string \<Rightarrow> pstate \<Rightarrow> pstate" where
  "log_message lvl msg st = st\<lparr>messages := messages st @ [(lvl, msg)]\<rparr>"

text \<open>
  Modelled from the spec: \<^verbatim>\<open>skip_block\<close> is the scanner's "skip remaining lines of
  current block" primitive, and it is idempotent.
\<close>

definition skip_block :: "pstate \<Rightarrow> pstate" where
  "skip_block st = st\<lparr>skip_pending := True\<rparr>"

text \<open>\<^verbatim>\<open>vector_slot(strvec, i)\<close>; a slot the line does not have is an invalid read.\<close>

definition vector_slot :: "string list \<Rightarrow> nat \<Rightarrow> string option" where
  "vector_slot strvec i = (if i < length strvec then Some (strvec ! i) else None)"

text \<open>\<^verbatim>\<open>LIST_TAIL_DATA\<close>: the last element, \<^verbatim>\<open>NULL\<close> for the empty list.\<close>

definition LIST_TAIL_DATA :: "'a list \<Rightarrow> 'a option" where
  "LIST_TAIL_DATA l = (if l = [] then None else Some (last l))"

text \<open>
  \<^verbatim>\<open>list_del(l, LIST_TAIL_DATA(l))\<close>: every call in the source deletes the element
  at the tail; on the empty list nothing is found and nothing is deleted.
\<close>

definition list_del_tail :: "'a list \<Rightarrow> 'a list" where
  "list_del_tail l = butlast l"

text \<open>A write through the pointer to the tail element.\<close>

definition set_tail :: "'a \<Rightarrow> 'a list \<Rightarrow> 'a list" where
  "set_tail x l = butlast l @ [x]"

text \<open>\<^verbatim>\<open>__set_bit\<close> and \<^verbatim>\<open>__test_bit\<close> of \<^verbatim>\<open>bitops.h\<close> on one \<^verbatim>\<open>unsigned long\<close>.\<close>

definition set_bit_ul :: "nat \<Rightarrow> ulong \<Rightarrow> ulong" where
  "set_bit_ul idx w = w OR push_bit idx 1"

definition test_bit_ul :: "nat \<Rightarrow> ulong \<Rightarrow> bool" where
  "test_bit_ul idx w = (w AND push_bit idx 1 \<noteq> 0)"

section \<open>The monitor role: building an instance\<close>

text \<open>
  Modelled from the spec: \<^verbatim>\<open>find_bfd_by_name\<close> and \<^verbatim>\<open>find_bfd_by_addr\<close> look an
  instance up in the monitor role's list by exact name and by neighbor address;
  \<^verbatim>\<open>alloc_bfd\<close> allocates the instance and appends it to the list, with no address,
  \<^verbatim>\<open>ttl\<close> unset and \<^verbatim>\<open>passive\<close> false.
\<close>

definition find_bfd_by_name :: "string \<Rightarrow> bfd_t list \<Rightarrow> bfd_t option" where
  "find_bfd_by_name name l = find (\<lambda>b. iname b = name) l"

definition find_bfd_by_addr :: "sockaddr_storage \<Rightarrow> bfd_t list \<Rightarrow> bfd_t option" where
  "find_bfd_by_addr a l = find (\<lambda>b. nbr_addr b = a) l"

definition alloc_bfd :: "bfd_env \<Rightarrow> string \<Rightarrow> bfd_t list \<Rightarrow> bfd_t list" where
  "alloc_bfd c name l =
     l @ [(fresh_bfd c)\<lparr>iname := name, nbr_addr := zero_addr, src_addr := zero_addr,
            passive := False, ttl := 0, vrrp := False, checker := False\<rparr>]"

definition check_new_bfd :: "bfd_env \<Rightarrow> string \<Rightarrow> pstate \<Rightarrow> fault + (bool \<times> pstate)" where
  "check_new_bfd c name st =
    (if length name \<ge> BFD_INAME_MAX c then
       Inr (False, skip_block (log_message LOG_ERR ''BFD instance name too long - ignoring'' st))
     else
       (case bfd_data st of
          None \<Rightarrow> Inl InvalidAccess
        | Some l \<Rightarrow>
            if find_bfd_by_name name l \<noteq> None then
              Inr (False, skip_block (log_message LOG_ERR ''BFD instance already configured - ignoring'' st))
            else Inr (True, st)))"

definition bfd_handler :: "bfd_env \<Rightarrow> string list option \<Rightarrow> pstate \<Rightarrow> fault + pstate" where
  "bfd_handler c strvec st =
    (case strvec of
       None \<Rightarrow> Inr (st\<lparr>have_bfd_instances := True\<rparr>)
     | Some sv \<Rightarrow>
        (case vector_slot sv 1 of
           None \<Rightarrow> Inl InvalidAccess
         | Some name \<Rightarrow>
            (case check_new_bfd c name st of
               Inl f \<Rightarrow> Inl f
             | Inr (ok, st1) \<Rightarrow>
                 if \<not> ok then Inr (skip_block st1)
                 else
                   (case bfd_data st1 of
                      None \<Rightarrow> Inl InvalidAccess
                    | Some l \<Rightarrow>
                        Inr (st1\<lparr>bfd_data := Some (alloc_bfd c name l),
                                 specified_event_processes := 0\<rparr>)))))"

definition bfd_nbrip_handler :: "bfd_env \<Rightarrow> string list option \<Rightarrow> pstate \<Rightarrow> fault + pstate" where
  "bfd_nbrip_handler c strvec st =
    (case strvec of None \<Rightarrow> Inl AssertionFailed | Some sv \<Rightarrow>
     (case bfd_data st of None \<Rightarrow> Inl AssertionFailed | Some l \<Rightarrow>
     (case LIST_TAIL_DATA l of None \<Rightarrow> Inl AssertionFailed | Some bfd \<Rightarrow>
     (case vector_slot sv 1 of None \<Rightarrow> Inl InvalidAccess | Some s \<Rightarrow>
       (case inet_stosockaddr c s (Some (BFD_CONTROL_PORT c)) of
          None \<Rightarrow>
            Inr (skip_block
              ((log_message LOG_ERR ''BFD instance has malformed neighbor address, ignoring instance'' st)
                 \<lparr>bfd_data := Some (list_del_tail l)\<rparr>))
        | Some nbr \<Rightarrow>
            if find_bfd_by_addr nbr l \<noteq> None then
              Inr (skip_block
                ((log_message LOG_ERR ''BFD instance has duplicate neighbor address, ignoring instance'' st)
                   \<lparr>bfd_data := Some (list_del_tail l)\<rparr>))
            else Inr (st\<lparr>bfd_data := Some (set_tail (bfd\<lparr>nbr_addr := nbr\<rparr>) l)\<rparr>))))))"

definition bfd_srcip_handler :: "bfd_env \<Rightarrow> string list option \<Rightarrow> pstate \<Rightarrow> fault + pstate" where
  "bfd_srcip_handler c strvec st =
    (case strvec of None \<Rightarrow> Inl AssertionFailed | Some sv \<Rightarrow>
     (case bfd_data st of None \<Rightarrow> Inl AssertionFailed | Some l \<Rightarrow>
     (case LIST_TAIL_DATA l of None \<Rightarrow> Inl AssertionFailed | Some bfd \<Rightarrow>
     (case vector_slot sv 1 of None \<Rightarrow> Inl InvalidAccess | Some s \<Rightarrow>
       (case inet_stosockaddr c s None of
          None \<Rightarrow> Inr (log_message LOG_ERR ''BFD instance has malformed source address, ignoring'' st)
        | Some src \<Rightarrow> Inr (st\<lparr>bfd_data := Some (set_tail (bfd\<lparr>src_addr := src\<rparr>) l)\<rparr>))))))"

definition bfd_minrx_handler :: "bfd_env \<Rightarrow> string list option \<Rightarrow> pstate \<Rightarrow> fault + pstate" where
  "bfd_minrx_handler c strvec st =
    (case strvec of None \<Rightarrow> Inl AssertionFailed | Some sv \<Rightarrow>
     (case bfd_data st of None \<Rightarrow> Inl AssertionFailed | Some l \<Rightarrow>
     (case LIST_TAIL_DATA l of None \<Rightarrow> Inl AssertionFailed | Some bfd \<Rightarrow>
     (case vector_slot sv 1 of None \<Rightarrow> Inl InvalidAccess | Some s \<Rightarrow>
     (case strtoul s of (v, endptr) \<Rightarrow>
       (let st1 =
          (if endptr \<noteq> [] \<or> unat v < BFD_MINRX_MIN c \<or> unat v > BFD_MINRX_MAX c
           then log_message LOG_ERR ''BFD instance min_rx value is not valid, ignoring'' st
           else st\<lparr>bfd_data := Some (set_tail (bfd\<lparr>local_min_rx_intv := unat (v * 1000)\<rparr>) l)\<rparr>)
        in Inr (if unat v > BFD_MINRX_MAX_SENSIBLE c
                then log_message LOG_INFO ''BFD instance min_rx value is larger than max sensible'' st1
                else st1)))))))"

definition bfd_mintx_handler :: "bfd_env \<Rightarrow> string list option \<Rightarrow> pstate \<Rightarrow> fault + pstate" where
  "bfd_mintx_handler c strvec st =
    (case strvec of None \<Rightarrow> Inl AssertionFailed | Some sv \<Rightarrow>
     (case bfd_data st of None \<Rightarrow> Inl AssertionFailed | Some l \<Rightarrow>
     (case LIST_TAIL_DATA l of None \<Rightarrow> Inl AssertionFailed | Some bfd \<Rightarrow>
     (case vector_slot sv 1 of None \<Rightarrow> Inl InvalidAccess | Some s \<Rightarrow>
     (case strtoul s of (v, endptr) \<Rightarrow>
       (let st1 =
          (if endptr \<noteq> [] \<or> unat v < BFD_MINTX_MIN c \<or> unat v > BFD_MINTX_MAX c
           then log_message LOG_ERR ''BFD instance min_tx value is not valid, ignoring'' st
           else st\<lparr>bfd_data := Some (set_tail (bfd\<lparr>local_min_tx_intv := unat (v * 1000)\<rparr>) l)\<rparr>)
        in Inr (if unat v > BFD_MINTX_MAX_SENSIBLE c
                then log_message LOG_INFO ''BFD instance min_tx value is larger than max sensible'' st1
                else st1)))))))"

definition bfd_idletx_handler :: "bfd_env \<Rightarrow> string list option \<Rightarrow> pstate \<Rightarrow> fault + pstate" where
  "bfd_idletx_handler c strvec st =
    (case strvec of None \<Rightarrow> Inl AssertionFailed | Some sv \<Rightarrow>
     (case bfd_data st of None \<Rightarrow> Inl AssertionFailed | Some l \<Rightarrow>
     (case LIST_TAIL_DATA l of None \<Rightarrow> Inl AssertionFailed | Some bfd \<Rightarrow>
     (case vector_slot sv 1 of None \<Rightarrow> Inl InvalidAccess | Some s \<Rightarrow>
     (case strtoul s of (v, endptr) \<Rightarrow>
       (let st1 =
          (if endptr \<noteq> [] \<or> unat v < BFD_IDLETX_MIN c \<or> unat v > BFD_IDLETX_MAX c
           then log_message LOG_ERR ''BFD instance idle_tx value is not valid, ignoring'' st
           else st\<lparr>bfd_data := Some (set_tail (bfd\<lparr>local_idle_tx_intv := unat (v * 1000)\<rparr>) l)\<rparr>)
        in Inr (if unat v > BFD_IDLETX_MAX_SENSIBLE c
                then log_message LOG_INFO ''BFD instance idle_tx value is larger than max sensible'' st1
                else st1)))))))"

definition bfd_multiplier_handler :: "bfd_env \<Rightarrow> string list option \<Rightarrow> pstate \<Rightarrow> fault + pstate" where
  "bfd_multiplier_handler c strvec st =
    (case strvec of None \<Rightarrow> Inl AssertionFailed | Some sv \<Rightarrow>
     (case bfd_data st of None \<Rightarrow> Inl AssertionFailed | Some l \<Rightarrow>
     (case LIST_TAIL_DATA l of None \<Rightarrow> Inl AssertionFailed | Some bfd \<Rightarrow>
     (case vector_slot sv 1 of None \<Rightarrow> Inl InvalidAccess | Some s \<Rightarrow>
     (case strtoul s of (v, endptr) \<Rightarrow>
       if endptr \<noteq> [] \<or> unat v < BFD_MULTIPLIER_MIN c \<or> unat v > BFD_MULTIPLIER_MAX c
       then Inr (log_message LOG_ERR ''BFD instance multiplier value not valid, ignoring'' st)
       else Inr (st\<lparr>bfd_data := Some (set_tail (bfd\<lparr>local_detect_mult := unat v\<rparr>) l)\<rparr>))))))"

definition bfd_passive_handler :: "bfd_env \<Rightarrow> string list option \<Rightarrow> pstate \<Rightarrow> fault + pstate" where
  "bfd_passive_handler c strvec st =
    (case bfd_data st of None \<Rightarrow> Inl AssertionFailed | Some l \<Rightarrow>
     (case LIST_TAIL_DATA l of None \<Rightarrow> Inl AssertionFailed | Some bfd \<Rightarrow>
       Inr (st\<lparr>bfd_data := Some (set_tail (bfd\<lparr>passive := True\<rparr>) l)\<rparr>)))"

definition bfd_ttl_handler :: "bfd_env \<Rightarrow> string list option \<Rightarrow> pstate \<Rightarrow> fault + pstate" where
  "bfd_ttl_handler c strvec st =
    (case strvec of None \<Rightarrow> Inl AssertionFailed | Some sv \<Rightarrow>
     (case bfd_data st of None \<Rightarrow> Inl AssertionFailed | Some l \<Rightarrow>
     (case LIST_TAIL_DATA l of None \<Rightarrow> Inl AssertionFailed | Some bfd \<Rightarrow>
     (case vector_slot sv 1 of None \<Rightarrow> Inl InvalidAccess | Some s \<Rightarrow>
     (case strtoul s of (v, endptr) \<Rightarrow>
       if endptr \<noteq> [] \<or> v = 0 \<or> unat v > BFD_TTL_MAX c
       then Inr (log_message LOG_ERR ''BFD instance ttl/hoplimit value not valid, ignoring'' st)
       else Inr (st\<lparr>bfd_data := Some (set_tail (bfd\<lparr>ttl := uint v\<rparr>) l)\<rparr>))))))"

definition bfd_maxhops_handler :: "bfd_env \<Rightarrow> string list option \<Rightarrow> pstate \<Rightarrow> fault + pstate" where
  "bfd_maxhops_handler c strvec st =
    (case strvec of None \<Rightarrow> Inl AssertionFailed | Some sv \<Rightarrow>
     (case bfd_data st of None \<Rightarrow> Inl AssertionFailed | Some l \<Rightarrow>
     (case LIST_TAIL_DATA l of None \<Rightarrow> Inl AssertionFailed | Some bfd \<Rightarrow>
     (case vector_slot sv 1 of None \<Rightarrow> Inl InvalidAccess | Some s \<Rightarrow>
     (case strtol s of (v, endptr) \<Rightarrow>
       if endptr \<noteq> [] \<or> v < - 1 \<or> v > int (BFD_TTL_MAX c)
       then Inr (log_message LOG_ERR ''BFD instance max_hops value not valid, ignoring'' st)
       else Inr (st\<lparr>bfd_data := Some (set_tail (bfd\<lparr>max_hops := v\<rparr>) l)\<rparr>))))))"

text \<open>
  The end of a block in the monitor role. The source reads \<^verbatim>\<open>bfd_data->bfd\<close> with no
  assertion on \<^verbatim>\<open>bfd_data\<close>.
\<close>

definition bfd_end_handler :: "bfd_env \<Rightarrow> pstate \<Rightarrow> fault + pstate" where
  "bfd_end_handler c st =
    (case bfd_data st of None \<Rightarrow> Inl InvalidAccess | Some l \<Rightarrow>
     (case LIST_TAIL_DATA l of None \<Rightarrow> Inl AssertionFailed | Some bfd \<Rightarrow>
       if ss_family (nbr_addr bfd) = 0 then
         Inr ((log_message LOG_ERR ''BFD instance has no neighbor address set, disabling instance'' st)
                \<lparr>bfd_data := Some (list_del_tail l)\<rparr>)
       else if ss_family (src_addr bfd) \<noteq> 0
               \<and> ss_family (nbr_addr bfd) \<noteq> ss_family (src_addr bfd) then
         Inr ((log_message LOG_ERR
                 ''BFD instance source address and neighbor address are not of the same family, disabling instance'' st)
                \<lparr>bfd_data := Some (list_del_tail l)\<rparr>)
       else
         (let bfd1 = (if ttl bfd = 0
                      then bfd\<lparr>ttl := (if ss_family (nbr_addr bfd) = AF_INET
                                        then BFD_CONTROL_TTL c else BFD_CONTROL_HOPLIMIT c)\<rparr>
                      else bfd);
              clamp = (max_hops bfd1 > ttl bfd1);
              bfd2 = (if clamp then bfd1\<lparr>max_hops := ttl bfd1\<rparr> else bfd1);
              st1 = (if clamp
                     then log_message LOG_INFO ''BFD instance: max_hops exceeds ttl/hoplimit - setting to ttl/hoplimit'' st
                     else st);
              sep = specified_event_processes st;
              bfd3 = (if WITH_VRRP c \<and> (sep = 0 \<or> test_bit_ul (DAEMON_VRRP c) sep)
                      then bfd2\<lparr>vrrp := True\<rparr> else bfd2);
              bfd4 = (if WITH_LVS c \<and> (sep = 0 \<or> test_bit_ul (DAEMON_CHECKERS c) sep)
                      then bfd3\<lparr>checker := True\<rparr> else bfd3)
          in Inr (st1\<lparr>bfd_data := Some (set_tail bfd4 l)\<rparr>))))"

section \<open>The redundancy role and the checker role: tracking an instance by name\<close>

text \<open>
  The redundancy role's opening handler. An existing record of the same name skips the
  block. Otherwise \<^verbatim>\<open>strcpy\<close> copies the name and its terminator into the array
  \<^verbatim>\<open>bname\<close> inside the new record, with no check of the length: a name that does
  not fit is a write past the end of the array. A name that fits is stored and the
  record is appended. The handler does not write \<^verbatim>\<open>specified_event_processes\<close>.
\<close>

definition bfd_vrrp_handler :: "bfd_env \<Rightarrow> string list option \<Rightarrow> pstate \<Rightarrow> fault + pstate" where
  "bfd_vrrp_handler c strvec st =
    (case strvec of
       None \<Rightarrow> Inr st
     | Some sv \<Rightarrow>
        (case vector_slot sv 1 of None \<Rightarrow> Inl InvalidAccess | Some name \<Rightarrow>
         (case vrrp_data st of None \<Rightarrow> Inl InvalidAccess | Some l \<Rightarrow>
           if \<exists>tbfd \<in> set l. name = bname tbfd then
             Inr (skip_block (log_message LOG_INFO ''BFD already specified'' st))
           else if length name \<ge> VRRP_BNAME_SIZE c then Inl InvalidAccess
           else
             Inr (st\<lparr>vrrp_data := Some (l @ [\<lparr>bname = name, weight = 0, bfd_up = False\<rparr>])\<rparr>))))"

definition bfd_vrrp_weight_handler :: "bfd_env \<Rightarrow> string list option \<Rightarrow> pstate \<Rightarrow> fault + pstate" where
  "bfd_vrrp_weight_handler c strvec st =
    (case strvec of None \<Rightarrow> Inl AssertionFailed | Some sv \<Rightarrow>
     (case vrrp_data st of None \<Rightarrow> Inl AssertionFailed | Some l \<Rightarrow>
     (case LIST_TAIL_DATA l of None \<Rightarrow> Inl AssertionFailed | Some tbfd \<Rightarrow>
     (case vector_slot sv 1 of None \<Rightarrow> Inl InvalidAccess | Some s \<Rightarrow>
     (case strtol s of (v, endptr) \<Rightarrow>
       if endptr \<noteq> [] \<or> v < - 253 \<or> v > 253
       then Inr (log_message LOG_ERR ''BFD instance weight value not valid, ignoring'' st)
       else Inr (st\<lparr>vrrp_data := Some (set_tail (tbfd\<lparr>weight := v\<rparr>) l)\<rparr>))))))"

definition bfd_event_vrrp_handler :: "bfd_env \<Rightarrow> string list option \<Rightarrow> pstate \<Rightarrow> fault + pstate" where
  "bfd_event_vrrp_handler c strvec st =
     Inr (st\<lparr>specified_event_processes := set_bit_ul (DAEMON_VRRP c) (specified_event_processes st)\<rparr>)"

definition bfd_vrrp_end_handler :: "bfd_env \<Rightarrow> pstate \<Rightarrow> fault + pstate" where
  "bfd_vrrp_end_handler c st =
    (if specified_event_processes st \<noteq> 0
        \<and> \<not> test_bit_ul (DAEMON_VRRP c) (specified_event_processes st) then
       (case vrrp_data st of
          None \<Rightarrow> Inl InvalidAccess
        | Some l \<Rightarrow> Inr (st\<lparr>vrrp_data := Some (list_del_tail l)\<rparr>))
     else Inr st)"

text \<open>
  The checker role's opening handler allocates \<^verbatim>\<open>strlen(name) + 1\<close> bytes for the
  name: a name of any length is stored.
\<close>

definition bfd_checker_handler :: "bfd_env \<Rightarrow> string list option \<Rightarrow> pstate \<Rightarrow> fault + pstate" where
  "bfd_checker_handler c strvec st =
    (case strvec of
       None \<Rightarrow> Inr st
     | Some sv \<Rightarrow>
        (case vector_slot sv 1 of None \<Rightarrow> Inl InvalidAccess | Some name \<Rightarrow>
         (case check_data st of None \<Rightarrow> Inl InvalidAccess | Some l \<Rightarrow>
           if \<exists>tbfd \<in> set l. name = checker_bname tbfd then
             Inr (skip_block (log_message LOG_INFO ''BFD already specified'' st))
           else
             Inr (st\<lparr>check_data := Some (l @ [\<lparr>checker_bname = name\<rparr>])\<rparr>))))"

definition bfd_event_checker_handler :: "bfd_env \<Rightarrow> string list option \<Rightarrow> pstate \<Rightarrow> fault + pstate" where
  "bfd_event_checker_handler c strvec st =
     Inr (st\<lparr>specified_event_processes := set_bit_ul (DAEMON_CHECKERS c) (specified_event_processes st)\<rparr>)"

definition bfd_checker_end_handler :: "bfd_env \<Rightarrow> pstate \<Rightarrow> fault + pstate" where
  "bfd_checker_end_handler c st =
    (if specified_event_processes st \<noteq> 0
        \<and> \<not> test_bit_ul (DAEMON_CHECKERS c) (specified_event_processes st) then
       (case check_data st of
          None \<Rightarrow> Inl InvalidAccess
        | Some l \<Rightarrow> Inr (st\<lparr>check_data := Some (list_del_tail l)\<rparr>))
     else Inr st)"

definition ignore_handler :: "bfd_env \<Rightarrow> string list option \<Rightarrow> pstate \<Rightarrow> fault + pstate" where
  "ignore_handler c strvec st = Inr st"

section \<open>The keyword table\<close>

text \<open>
  A function pointer stored in the keyword table is the name of the function; calling
  through the pointer runs that function.
\<close>

datatype handler_fn =
    Bfd_handler | Bfd_vrrp_handler | Bfd_checker_handler
  | Bfd_srcip_handler | Bfd_nbrip_handler | Bfd_minrx_handler | Bfd_mintx_handler
  | Bfd_idletx_handler | Bfd_multiplier_handler | Bfd_passive_handler | Bfd_ttl_handler
  | Bfd_maxhops_handler | Bfd_vrrp_weight_handler | Bfd_event_vrrp_handler
  | Bfd_event_checker_handler | Ignore_handler

datatype end_handler_fn = Bfd_end_handler | Bfd_vrrp_end_handler | Bfd_checker_end_handler

fun call_handler :: "handler_fn \<Rightarrow> bfd_env \<Rightarrow> string list option \<Rightarrow> pstate \<Rightarrow> fault + pstate" where
  "call_handler Bfd_handler = bfd_handler"
| "call_handler Bfd_vrrp_handler = bfd_vrrp_handler"
| "call_handler Bfd_checker_handler = bfd_checker_handler"
| "call_handler Bfd_srcip_handler = bfd_srcip_handler"
| "call_handler Bfd_nbrip_handler = bfd_nbrip_handler"
| "call_handler Bfd_minrx_handler = bfd_minrx_handler"
| "call_handler Bfd_mintx_handler = bfd_mintx_handler"
| "call_handler Bfd_idletx_handler = bfd_idletx_handler"
| "call_handler Bfd_multiplier_handler = bfd_multiplier_handler"
| "call_handler Bfd_passive_handler = bfd_passive_handler"
| "call_handler Bfd_ttl_handler = bfd_ttl_handler"
| "call_handler Bfd_maxhops_handler = bfd_maxhops_handler"
| "call_handler Bfd_vrrp_weight_handler = bfd_vrrp_weight_handler"
| "call_handler Bfd_event_vrrp_handler = bfd_event_vrrp_handler"
| "call_handler Bfd_event_checker_handler = bfd_event_checker_handler"
| "call_handler Ignore_handler = ignore_handler"

fun call_end_handler :: "end_handler_fn \<Rightarrow> bfd_env \<Rightarrow> pstate \<Rightarrow> fault + pstate" where
  "call_end_handler Bfd_end_handler = bfd_end_handler"
| "call_end_handler Bfd_vrrp_end_handler = bfd_vrrp_end_handler"
| "call_end_handler Bfd_checker_end_handler = bfd_checker_end_handler"

text \<open>
  Modelled from the spec: the keyword table and its \<^verbatim>\<open>install_*\<close> functions belong to
  the generic parser, which is not part of the source. The table is the ordered list of
  root keywords; a root keyword has its handler, whether it is active, the handler run
  when its block closes, and the ordered list of its child keywords.
  \<^verbatim>\<open>install_keyword_root\<close> appends a root keyword, \<^verbatim>\<open>install_sublevel_end_handler\<close> and
  \<^verbatim>\<open>install_keyword\<close> work on the root keyword installed last.
\<close>

record keyword_t =
  kw_string :: string
  kw_handler :: handler_fn
  kw_active :: bool
  sub_close_handler :: "end_handler_fn option"
  sub :: "(string \<times> handler_fn) list"

definition install_keyword_root :: "string \<Rightarrow> handler_fn \<Rightarrow> bool \<Rightarrow> keyword_t list \<Rightarrow> keyword_t list" where
  "install_keyword_root s h active keywords =
     keywords @ [\<lparr>kw_string = s, kw_handler = h, kw_active = active,
                  sub_close_handler = None, sub = []\<rparr>]"

definition install_sublevel_end_handler :: "end_handler_fn \<Rightarrow> keyword_t list \<Rightarrow> keyword_t list" where
  "install_sublevel_end_handler e keywords =
     (if keywords = [] then [] else set_tail ((last keywords)\<lparr>sub_close_handler := Some e\<rparr>) keywords)"

definition install_keyword :: "string \<Rightarrow> handler_fn \<Rightarrow> keyword_t list \<Rightarrow> keyword_t list" where
  "install_keyword s h keywords =
     (if keywords = [] then []
      else set_tail ((last keywords)\<lparr>sub := sub (last keywords) @ [(s, h)]\<rparr>) keywords)"

definition install_keyword_conditional :: "string \<Rightarrow> handler_fn \<Rightarrow> bool \<Rightarrow> keyword_t list \<Rightarrow> keyword_t list" where
  "install_keyword_conditional s h want_handler =
     install_keyword s (if want_handler then h else Ignore_handler)"

datatype prog_type_t = PROG_TYPE_PARENT | PROG_TYPE_VRRP | PROG_TYPE_CHECKER | PROG_TYPE_BFD

text \<open>
  \<^verbatim>\<open>init_bfd_keywords(active)\<close>, for the process \<^verbatim>\<open>prog_type\<close>, as a function of the
  table built so far. \<^verbatim>\<open>bfd_handlers\<close> is true exactly when the first branch is taken.
\<close>

definition init_bfd_keywords :: "bfd_env \<Rightarrow> prog_type_t \<Rightarrow> bool \<Rightarrow> keyword_t list \<Rightarrow> keyword_t list" where
  "init_bfd_keywords c prog_type active keywords =
    (let bfd_handlers = (prog_type = PROG_TYPE_BFD \<or> \<not> active);
         k1 = (if bfd_handlers then
                 install_sublevel_end_handler Bfd_end_handler
                   (install_keyword_root ''bfd_instance'' Bfd_handler active keywords)
               else if WITH_VRRP c \<and> prog_type = PROG_TYPE_VRRP then
                 install_sublevel_end_handler Bfd_vrrp_end_handler
                   (install_keyword_root ''bfd_instance'' Bfd_vrrp_handler active keywords)
               else if WITH_LVS c \<and> prog_type = PROG_TYPE_CHECKER then
                 install_sublevel_end_handler Bfd_checker_end_handler
                   (install_keyword_root ''bfd_instance'' Bfd_checker_handler active keywords)
               else keywords);
         k2 = install_keyword_conditional ''source_ip'' Bfd_srcip_handler bfd_handlers k1;
         k3 = install_keyword_conditional ''neighbor_ip'' Bfd_nbrip_handler bfd_handlers k2;
         k4 = install_keyword_conditional ''min_rx'' Bfd_minrx_handler bfd_handlers k3;
         k5 = install_keyword_conditional ''min_tx'' Bfd_mintx_handler bfd_handlers k4;
         k6 = install_keyword_conditional ''idle_tx'' Bfd_idletx_handler bfd_handlers k5;
         k7 = install_keyword_conditional ''multiplier'' Bfd_multiplier_handler bfd_handlers k6;
         k8 = install_keyword_conditional ''passive'' Bfd_passive_handler bfd_handlers k7;
         k9 = install_keyword_conditional ''ttl'' Bfd_ttl_handler bfd_handlers k8;
         k10 = install_keyword_conditional ''hoplimit'' Bfd_ttl_handler bfd_handlers k9;
         k11 = install_keyword_conditional ''max_hops'' Bfd_maxhops_handler bfd_handlers k10;
         k12 = (if WITH_VRRP c then
                  install_keyword ''vrrp'' Bfd_event_vrrp_handler
                    (install_keyword_conditional ''weight'' Bfd_vrrp_weight_handler (\<not> bfd_handlers) k11)
                else k11)
     in if WITH_LVS c then install_keyword ''checker'' Bfd_event_checker_handler k12 else k12)"

section \<open>The block scanner\<close>

text \<open>
  Modelled from the spec: the scanner is the generic parser's, not part of the source.
  It reads a block as its opening line and the lines of its body. The handler of the
  root keyword runs on the opening line, the handler of each child keyword on its line,
  and the handler for the end of the block when the block closes. Once a handler has
  called \<^verbatim>\<open>skip_block\<close> the remaining lines of the block are skipped, the block closes
  with no validation, and reading resumes at the next block. A keyword the table does
  not have is passed over. The handler of a root keyword that is not active is told
  of the block with no line (the source's opening handlers test \<^verbatim>\<open>!strvec\<close> for
  this call), and the block is skipped.
\<close>

type_synonym line = "string list"
type_synonym block = "line \<times> line list"

definition find_child :: "(string \<times> handler_fn) list \<Rightarrow> line \<Rightarrow> handler_fn option" where
  "find_child subs sv = (case sv of [] \<Rightarrow> None | kw # _ \<Rightarrow> map_of subs kw)"

definition process_line :: "bfd_env \<Rightarrow> (string \<times> handler_fn) list \<Rightarrow> line \<Rightarrow> pstate \<Rightarrow> fault + pstate" where
  "process_line c subs sv st =
    (case find_child subs sv of
       None \<Rightarrow> Inr st
     | Some h \<Rightarrow> call_handler h c (Some sv) st)"

fun process_lines :: "bfd_env \<Rightarrow> (string \<times> handler_fn) list \<Rightarrow> line list \<Rightarrow> pstate \<Rightarrow> fault + pstate" where
  "process_lines c subs [] st = Inr st"
| "process_lines c subs (sv # rest) st =
    (if skip_pending st then Inr st
     else
       (case process_line c subs sv st of
          Inl f \<Rightarrow> Inl f
        | Inr st1 \<Rightarrow> process_lines c subs rest st1))"

definition find_root :: "keyword_t list \<Rightarrow> line \<Rightarrow> keyword_t option" where
  "find_root keywords sv =
     (case sv of [] \<Rightarrow> None | kw # _ \<Rightarrow> find (\<lambda>k. kw_string k = kw) keywords)"

definition close_block :: "bfd_env \<Rightarrow> keyword_t \<Rightarrow> pstate \<Rightarrow> fault + pstate" where
  "close_block c k st =
    (if skip_pending st then Inr (st\<lparr>skip_pending := False\<rparr>)
     else (case sub_close_handler k of None \<Rightarrow> Inr st | Some e \<Rightarrow> call_end_handler e c st))"

text \<open>The lines of a block after its opening line, and its close.\<close>

definition finish_block :: "bfd_env \<Rightarrow> keyword_t \<Rightarrow> line list \<Rightarrow> pstate \<Rightarrow> fault + pstate" where
  "finish_block c k body st =
    (case process_lines c (sub k) body st of
       Inl f \<Rightarrow> Inl f
     | Inr st2 \<Rightarrow> close_block c k st2)"

definition process_block :: "bfd_env \<Rightarrow> keyword_t list \<Rightarrow> block \<Rightarrow> pstate \<Rightarrow> fault + pstate" where
  "process_block c keywords blk st =
    (case find_root keywords (fst blk) of
       None \<Rightarrow> Inr st
     | Some k \<Rightarrow>
        if \<not> kw_active k then call_handler (kw_handler k) c None st
        else
          (case call_handler (kw_handler k) c (Some (fst blk)) st of
             Inl f \<Rightarrow> Inl f
           | Inr st1 \<Rightarrow> finish_block c k (snd blk) st1))"

fun process_stream :: "bfd_env \<Rightarrow> keyword_t list \<Rightarrow> block list \<Rightarrow> pstate \<Rightarrow> fault + pstate" where
  "process_stream c keywords [] st = Inr st"
| "process_stream c keywords (blk # rest) st =
    (case process_block c keywords blk st of
       Inl f \<Rightarrow> Inl f
     | Inr st1 \<Rightarrow> process_stream c keywords rest st1)"

text \<open>
  One load of a configuration by the process \<^verbatim>\<open>prog_type\<close>: the keyword table is built
  and the blocks are read into fresh, empty data sets. The static
  \<^verbatim>\<open>specified_event_processes\<close> is the process's: a load starts with the value
  \<^verbatim>\<open>sep\<close> the process holds at that moment (0 when the process starts).
\<close>

definition load_start :: "ulong \<Rightarrow> pstate" where
  "load_start sep =
     \<lparr>bfd_data = Some [], vrrp_data = Some [], check_data = Some [],
      specified_event_processes = sep, have_bfd_instances = False,
      skip_pending = False, messages = []\<rparr>"

definition load :: "bfd_env \<Rightarrow> prog_type_t \<Rightarrow> block list \<Rightarrow> ulong \<Rightarrow> fault + pstate" where
  "load c prog_type config sep =
     process_stream c (init_bfd_keywords c prog_type True []) config (load_start sep)"

text \<open>
  \<^verbatim>\<open>bfd_init_keywords\<close>, the table of the monitor process (where \<^verbatim>\<open>prog_type\<close> is
  \<^verbatim>\<open>PROG_TYPE_BFD\<close>). The root keywords that \<^verbatim>\<open>init_global_keywords\<close>,
  \<^verbatim>\<open>init_check_keywords\<close> and \<^verbatim>\<open>init_vrrp_keywords\<close> install belong to other blocks
  of the configuration and are left out.
\<close>

definition bfd_init_keywords :: "bfd_env \<Rightarrow> keyword_t list" where
  "bfd_init_keywords c = init_bfd_keywords c PROG_TYPE_BFD True []"

section \<open>Reading a result\<close>

text \<open>The monitor role's list, the redundancy role's list and the checker role's list
  after a handler or a load has returned; \<^verbatim>\<open>None\<close> after a fault.\<close>

definition bfds_of :: "fault + pstate \<Rightarrow> bfd_t list option" where
  "bfds_of r = (case r of Inl f \<Rightarrow> None | Inr st \<Rightarrow> bfd_data st)"

definition vrrp_refs_of :: "fault + pstate \<Rightarrow> vrrp_tracked_bfd_t list option" where
  "vrrp_refs_of r = (case r of Inl f \<Rightarrow> None | Inr st \<Rightarrow> vrrp_data st)"



definition skipping :: "fault + pstate \<Rightarrow> bool option" where
  "skipping r = (case r of Inl f \<Rightarrow> None | Inr st \<Rightarrow> Some (skip_pending st))"

definition selected_of :: "fault + pstate \<Rightarrow> ulong option" where
  "selected_of r = (case r of Inl f \<Rightarrow> None | Inr st \<Rightarrow> Some (specified_event_processes st))"

section \<open>A sample build\<close>

text \<open>
  Values for the parameters, to run the functions on concrete lines: both roles
  compiled in, the role bits at positions 0 and 1, and a toy address parser that takes
  digits and dots for a v4 address, anything else with a colon for a v6 address, and
  fails on the rest.
\<close>

definition sample_stosockaddr :: "string \<Rightarrow> string option \<Rightarrow> sockaddr_storage option" where
  "sample_stosockaddr s port =
     (if s \<noteq> [] \<and> list_all (\<lambda>ch. isdigit ch \<or> ch = CHR ''.'') s
        then Some \<lparr>ss_family = AF_INET, ss_data = s\<rparr>
      else if CHR '':'' \<in> set s then Some \<lparr>ss_family = AF_INET6, ss_data = s\<rparr>
      else None)"

definition sample_bfd :: bfd_t where
  "sample_bfd =
     \<lparr>iname = [], nbr_addr = zero_addr, src_addr = zero_addr,
      local_min_rx_intv = 10000, local_min_tx_intv = 10000, local_idle_tx_intv = 1000000,
      local_detect_mult = 5, passive = False, ttl = 0, max_hops = 0,
      vrrp = False, checker = False\<rparr>"

definition sample_env :: bfd_env where
  "sample_env =
     \<lparr>WITH_VRRP = True, WITH_LVS = True, BFD_INAME_MAX = 32, BFD_CONTROL_PORT = ''3784'',
      BFD_MINRX_MIN = 1, BFD_MINRX_MAX = 4294967, BFD_MINRX_MAX_SENSIBLE = 1000,
      BFD_MINTX_MIN = 1, BFD_MINTX_MAX = 4294967, BFD_MINTX_MAX_SENSIBLE = 1000,
      BFD_IDLETX_MIN = 1000, BFD_IDLETX_MAX = 4294967, BFD_IDLETX_MAX_SENSIBLE = 10000,
      BFD_MULTIPLIER_MIN = 1, BFD_MULTIPLIER_MAX = 10, BFD_TTL_MAX = 255,
      BFD_CONTROL_TTL = 255, BFD_CONTROL_HOPLIMIT = 64,
      DAEMON_VRRP = 0, DAEMON_CHECKERS = 1, VRRP_BNAME_SIZE = 32,
      inet_stosockaddr = sample_stosockaddr, fresh_bfd = sample_bfd\<rparr>"

text \<open>A v4 address, a v6 address, and the monitor role's state with the one instance
  \<open>b\<close> in its list.\<close>

definition sample_nbr :: sockaddr_storage where
  "sample_nbr = \<lparr>ss_family = AF_INET, ss_data = ''192.0.2.1''\<rparr>"

definition sample_state :: "bfd_t \<Rightarrow> pstate" where
  "sample_state b = (load_start 0)\<lparr>bfd_data := Some [b]\<rparr>"

definition sample_v6 :: sockaddr_storage where
  "sample_v6 = \<lparr>ss_family = AF_INET6, ss_data = ''2001:db8::1''\<rparr>"

text \<open>An instance \<^verbatim>\<open>a\<close> whose block has closed, and the list when a block \<^verbatim>\<open>b\<close> has
  just opened after it.\<close>

definition sample_a :: bfd_t where
  "sample_a = sample_bfd\<lparr>iname := ''a'', nbr_addr := sample_nbr\<rparr>"

definition sample_two :: pstate where
  "sample_two = (load_start 0)\<lparr>bfd_data := Some [sample_a, sample_bfd\<lparr>iname := ''b''\<rparr>]\<rparr>"


definition config_vrrp_then_checker :: "block list" where
  "config_vrrp_then_checker =
     [([''bfd_instance'', ''a''], [[''neighbor_ip'', ''192.0.2.1''], [''vrrp'']]),
      ([''bfd_instance'', ''b''], [[''neighbor_ip'', ''192.0.2.2''], [''checker'']])]"

definition config_none_then_checker :: "block list" where
  "config_none_then_checker =
     [([''bfd_instance'', ''a''], []), ([''bfd_instance'', ''b''], [[''checker'']])]"


section \<open>The words of the claims about role selection\<close>






text \<open>
  What the spec asks of an instance that has been committed: \<^verbatim>\<open>max_hops\<close> within the
  ttl, a neighbor address, and a source address that is absent or of the neighbor's
  family.
\<close>

definition committed_ok :: "bfd_t \<Rightarrow> bool" where
  "committed_ok b =
     (max_hops b \<le> ttl b \<and> ss_family (nbr_addr b) \<noteq> 0
      \<and> (ss_family (src_addr b) = 0 \<or> ss_family (nbr_addr b) = ss_family (src_addr b)))"

text \<open>
  The monitor role's list while a block is read, over the instances \<open>l\<close> committed
  before the block: either the instance being built is at the tail and no skip is
  asked for, or the instance is gone and the rest of the block is being skipped.
\<close>

definition building :: "bfd_t list \<Rightarrow> pstate \<Rightarrow> bool" where
  "building l st =
     ((\<exists>b. bfd_data st = Some (l @ [b]) \<and> \<not> skip_pending st)
      \<or> (bfd_data st = Some l \<and> skip_pending st))"

definition building_result :: "bfd_t list \<Rightarrow> fault + pstate \<Rightarrow> bool" where
  "building_result l r = (case r of Inl f \<Rightarrow> True | Inr st \<Rightarrow> building l st)"

text \<open>Two results agree but for the accumulator: the same fault, or states that differ
  in \<^verbatim>\<open>specified_event_processes\<close> at most.\<close>

definition agree_but_selected :: "fault + pstate \<Rightarrow> fault + pstate \<Rightarrow> bool" where
  "agree_but_selected r1 r2 =
     (case r1 of
        Inl f1 \<Rightarrow> r2 = Inl f1
      | Inr s1 \<Rightarrow>
         (case r2 of
            Inl f2 \<Rightarrow> False
          | Inr s2 \<Rightarrow> s2 = s1\<lparr>specified_event_processes := specified_event_processes s2\<rparr>))"

text \<open>
  The child keywords that \<^verbatim>\<open>init_bfd_keywords\<close> installs in the redundancy process and
  in the checker process when both roles are compiled in (lemmas \<open>vrrp_table\<close> and
  \<open>checker_table\<close>).
\<close>

definition role_subs :: "(string \<times> handler_fn) list" where
  "role_subs = [(''source_ip'', Ignore_handler), (''neighbor_ip'', Ignore_handler),
              (''min_rx'', Ignore_handler), (''min_tx'', Ignore_handler),
              (''idle_tx'', Ignore_handler), (''multiplier'', Ignore_handler),
              (''passive'', Ignore_handler), (''ttl'', Ignore_handler),
              (''hoplimit'', Ignore_handler), (''max_hops'', Ignore_handler),
              (''weight'', Bfd_vrrp_weight_handler), (''vrrp'', Bfd_event_vrrp_handler),
              (''checker'', Bfd_event_checker_handler)]"

section \<open>Basic facts\<close>

lemma tail_of_nonempty: "l \<noteq> [] \<Longrightarrow> LIST_TAIL_DATA l = Some (last l)"
  by (simp add: LIST_TAIL_DATA_def)


lemma bit_set_bit_ul: "bit (set_bit_ul j w) i = (bit w i \<or> (i = j \<and> j < 64))"
  by (auto simp add: set_bit_ul_def bit_simps)

lemma set_bit_ul_nonzero: "j < 64 \<Longrightarrow> set_bit_ul j w \<noteq> 0"
  by (metis bit_set_bit_ul bit_0_eq bot_apply bot_bool_def)

text \<open>
  On a token that is a row of decimal digits writing a number up to \<^verbatim>\<open>ULONG_MAX\<close>,
  \<^verbatim>\<open>strtoul\<close> returns that number and stops at the end of the token.
\<close>

lemma isdigit_not_space: "isdigit ch \<Longrightarrow> \<not> isspace ch \<and> ch \<noteq> CHR ''-'' \<and> ch \<noteq> CHR ''+''"
  by (auto simp add: isdigit_def isspace_def)

lemma subject_digits:
  assumes "ds \<noteq> []" and "list_all isdigit ds"
  shows "subject ds = (False, ds, [])"
proof -
  from assms obtain d rest where ds: "ds = d # rest" by (cases ds) auto
  with assms have d: "isdigit d" by simp
  have tw: "takeWhile isdigit ds = ds" "dropWhile isdigit ds = []"
    using assms(2) by (simp_all add: list_all_iff)
  have dw: "dropWhile isspace ds = ds"
    using d isdigit_not_space [of d] by (simp add: ds)
  show ?thesis
    unfolding subject_def dw Let_def using d isdigit_not_space [of d] tw
    by (simp add: ds)
qed

lemma strtoul_digits:
  assumes "ds \<noteq> []" and "list_all isdigit ds" and "decimal 0 ds \<le> ULONG_MAX"
  shows "strtoul ds = (word_of_nat (decimal 0 ds), [])"
  using assms by (simp add: strtoul_def subject_digits)

lemma unat_strtoul_digits:
  assumes "ds \<noteq> []" and "list_all isdigit ds" and "decimal 0 ds \<le> ULONG_MAX"
  shows "unat (fst (strtoul ds)) = decimal 0 ds"
proof -
  have "decimal 0 ds < 2 ^ 64" using assms(3) by (simp add: ULONG_MAX_def)
  then show ?thesis using assms by (simp add: strtoul_digits unat_of_nat)
qed


section \<open>The interval keywords\<close>

lemma sample_state_bfds: "bfd_data (sample_state b) = Some [b]"
  by (simp add: sample_state_def)













section \<open>The ttl keyword\<close>




section \<open>The end of a block in the monitor role\<close>

text \<open>
  Claim C6. At the close of a block in the monitor role the instance at the tail is
  removed from the list exactly when it has no neighbor address (family 0), or has a
  source address and a neighbor address of different families. Exactly in the other
  case, a neighbor address and no source address or one of the same family, the
  instance stays at the tail, under its name and with its two addresses.
\<close>

theorem bfd_end_handler_discards_iff:
  assumes "bfd_data st = Some l" and "l \<noteq> []"
  shows
    "(bfds_of (bfd_end_handler c st) = Some (butlast l)) =
       (ss_family (nbr_addr (last l)) = 0
        \<or> (ss_family (src_addr (last l)) \<noteq> 0
            \<and> ss_family (nbr_addr (last l)) \<noteq> ss_family (src_addr (last l))))
     \<and> (\<exists>b. bfds_of (bfd_end_handler c st) = Some (butlast l @ [b])
            \<and> iname b = iname (last l) \<and> nbr_addr b = nbr_addr (last l)
            \<and> src_addr b = src_addr (last l)) =
       (ss_family (nbr_addr (last l)) \<noteq> 0
        \<and> (ss_family (src_addr (last l)) = 0
            \<or> ss_family (nbr_addr (last l)) = ss_family (src_addr (last l))))"
  using assms
  by (auto simp add: bfd_end_handler_def bfds_of_def tail_of_nonempty list_del_tail_def
        set_tail_def log_message_def Let_def)

text \<open>A v4 neighbor with a v6 source is discarded; the instance before it stays.\<close>

theorem bfd_end_handler_discards_iff_witness:
  "bfds_of (bfd_end_handler sample_env
      ((load_start 0)\<lparr>bfd_data :=
          Some [sample_bfd\<lparr>nbr_addr := sample_nbr\<rparr>,
                sample_bfd\<lparr>nbr_addr := sample_nbr, src_addr := sample_v6\<rparr>]\<rparr>))
     = Some [sample_bfd\<lparr>nbr_addr := sample_nbr\<rparr>]"
  using bfd_end_handler_discards_iff
    [of "(load_start 0)\<lparr>bfd_data :=
          Some [sample_bfd\<lparr>nbr_addr := sample_nbr\<rparr>,
                sample_bfd\<lparr>nbr_addr := sample_nbr, src_addr := sample_v6\<rparr>]\<rparr>"
        "[sample_bfd\<lparr>nbr_addr := sample_nbr\<rparr>,
          sample_bfd\<lparr>nbr_addr := sample_nbr, src_addr := sample_v6\<rparr>]" sample_env]
  by (simp add: sample_nbr_def sample_v6_def AF_INET_def AF_INET6_def)

text \<open>
  Claim C7. An instance that the close of its block keeps has \<^verbatim>\<open>max_hops \<le> ttl\<close>:
  a ttl still 0 is first set to \<^verbatim>\<open>BFD_CONTROL_TTL\<close> when the neighbor's family is
  \<^verbatim>\<open>AF_INET\<close> and to \<^verbatim>\<open>BFD_CONTROL_HOPLIMIT\<close> otherwise, and \<^verbatim>\<open>max_hops\<close> is then the
  smaller of its old value and the ttl. (Lemma \<open>monitor_load_commits\<close> below carries
  this to every instance in the list that a load of the monitor role returns.)
\<close>

theorem bfd_end_handler_max_hops_le_ttl:
  assumes "bfd_data st = Some l" and "l \<noteq> []"
    and "ss_family (nbr_addr (last l)) \<noteq> 0"
    and "ss_family (src_addr (last l)) = 0
         \<or> ss_family (nbr_addr (last l)) = ss_family (src_addr (last l))"
  shows
    "\<exists>b. bfds_of (bfd_end_handler c st) = Some (butlast l @ [b])
        \<and> max_hops b \<le> ttl b
        \<and> ttl b = (if ttl (last l) \<noteq> 0 then ttl (last l)
                   else if ss_family (nbr_addr (last l)) = AF_INET then BFD_CONTROL_TTL c
                   else BFD_CONTROL_HOPLIMIT c)
        \<and> max_hops b = min (max_hops (last l)) (ttl b)"
  using assms
  by (auto simp add: bfd_end_handler_def bfds_of_def tail_of_nonempty list_del_tail_def
        set_tail_def log_message_def Let_def)

text \<open>
  \<^verbatim>\<open>max_hops 200\<close> on a v6 neighbor with no ttl line: the ttl becomes the hop limit 64
  of the sample build and \<^verbatim>\<open>max_hops\<close> is cut to it.
\<close>

theorem bfd_end_handler_max_hops_le_ttl_witness:
  "\<exists>b. bfds_of (bfd_end_handler sample_env
            (sample_state (sample_bfd\<lparr>nbr_addr := sample_v6, max_hops := 200\<rparr>))) = Some [b]
      \<and> max_hops b \<le> ttl b \<and> ttl b = 64 \<and> max_hops b = 64"
  using bfd_end_handler_max_hops_le_ttl
    [of "sample_state (sample_bfd\<lparr>nbr_addr := sample_v6, max_hops := 200\<rparr>)"
        "[sample_bfd\<lparr>nbr_addr := sample_v6, max_hops := 200\<rparr>]" sample_env]
  by (auto simp add: sample_state_bfds sample_v6_def sample_bfd_def zero_addr_def sample_env_def
      AF_INET_def AF_INET6_def)

section \<open>The keyword tables of the three roles\<close>

lemmas install_defs = install_keyword_root_def install_sublevel_end_handler_def
  install_keyword_def install_keyword_conditional_def set_tail_def

lemma monitor_table:
  "bfd_init_keywords c =
     [\<lparr>kw_string = ''bfd_instance'', kw_handler = Bfd_handler, kw_active = True,
       sub_close_handler = Some Bfd_end_handler,
       sub = [(''source_ip'', Bfd_srcip_handler), (''neighbor_ip'', Bfd_nbrip_handler),
              (''min_rx'', Bfd_minrx_handler), (''min_tx'', Bfd_mintx_handler),
              (''idle_tx'', Bfd_idletx_handler), (''multiplier'', Bfd_multiplier_handler),
              (''passive'', Bfd_passive_handler), (''ttl'', Bfd_ttl_handler),
              (''hoplimit'', Bfd_ttl_handler), (''max_hops'', Bfd_maxhops_handler)]
             @ (if WITH_VRRP c then [(''weight'', Ignore_handler), (''vrrp'', Bfd_event_vrrp_handler)] else [])
             @ (if WITH_LVS c then [(''checker'', Bfd_event_checker_handler)] else [])\<rparr>]"
  unfolding bfd_init_keywords_def init_bfd_keywords_def Let_def
  by (simp add: install_defs)


lemma vrrp_table:
  assumes "WITH_VRRP c" and "WITH_LVS c"
  shows "init_bfd_keywords c PROG_TYPE_VRRP True [] =
     [\<lparr>kw_string = ''bfd_instance'', kw_handler = Bfd_vrrp_handler, kw_active = True,
       sub_close_handler = Some Bfd_vrrp_end_handler,
       sub = [(''source_ip'', Ignore_handler), (''neighbor_ip'', Ignore_handler),
              (''min_rx'', Ignore_handler), (''min_tx'', Ignore_handler),
              (''idle_tx'', Ignore_handler), (''multiplier'', Ignore_handler),
              (''passive'', Ignore_handler), (''ttl'', Ignore_handler),
              (''hoplimit'', Ignore_handler), (''max_hops'', Ignore_handler),
              (''weight'', Bfd_vrrp_weight_handler), (''vrrp'', Bfd_event_vrrp_handler),
              (''checker'', Bfd_event_checker_handler)]\<rparr>]"
  unfolding init_bfd_keywords_def Let_def
  using assms by (simp add: install_defs)

section \<open>Rejected openings in the monitor role\<close>

lemma process_lines_skipping:
  "skip_pending st \<Longrightarrow> process_lines c subs body st = Inr st"
  by (cases body) simp_all

lemma find_bfd_by_name_iff: "(find_bfd_by_name name l = None) = (name \<notin> iname ` set l)"
  by (auto simp add: find_bfd_by_name_def find_None_iff)

lemma bfd_handler_rejects:
  assumes "bfd_data st = Some l"
    and "length name \<ge> BFD_INAME_MAX c \<or> name \<in> iname ` set l"
  shows "\<exists>st'. bfd_handler c (Some [kw, name]) st = Inr st'
           \<and> bfd_data st' = Some l \<and> skip_pending st'
           \<and> specified_event_processes st' = specified_event_processes st
           \<and> vrrp_data st' = vrrp_data st \<and> check_data st' = check_data st"
  using assms
  by (auto simp add: bfd_handler_def check_new_bfd_def vector_slot_def find_bfd_by_name_iff
      skip_block_def log_message_def)

lemma bfd_handler_accepts:
  assumes "bfd_data st = Some l"
    and "length name < BFD_INAME_MAX c" and "name \<notin> iname ` set l"
  shows "bfd_handler c (Some [kw, name]) st =
           Inr (st\<lparr>bfd_data := Some (alloc_bfd c name l), specified_event_processes := 0\<rparr>)"
  using assms
  by (auto simp add: bfd_handler_def check_new_bfd_def vector_slot_def find_bfd_by_name_iff)

lemma process_block_skipped:
  assumes "find_root keywords (fst blk) = Some k" and "kw_active k"
    and "call_handler (kw_handler k) c (Some (fst blk)) st = Inr st'" and "skip_pending st'"
  shows "process_block c keywords blk st = Inr (st'\<lparr>skip_pending := False\<rparr>)"
  using assms by (simp add: process_block_def finish_block_def process_lines_skipping close_block_def)

lemma monitor_root:
  "\<exists>k. find_root (bfd_init_keywords c) (''bfd_instance'' # args) = Some k
      \<and> kw_active k \<and> kw_handler k = Bfd_handler \<and> sub_close_handler k = Some Bfd_end_handler
      \<and> map_of (sub k) ''neighbor_ip'' = Some Bfd_nbrip_handler
      \<and> map_of (sub k) ''source_ip'' = Some Bfd_srcip_handler"
  by (simp add: monitor_table find_root_def)

text \<open>
  Claim C4. In the monitor role, when the name on the opening line is as long as
  \<^verbatim>\<open>BFD_INAME_MAX\<close> or longer, or is the name of an instance already in the list, the
  opening handler creates no instance and asks for the block to be skipped. The whole
  block then has the effect of the same opening with an empty body: no line of the body
  is applied, the list of instances is exactly what it was (in the duplicate case the
  first declaration is still there, untouched), and the accumulator of selected roles is
  what it was.
\<close>

theorem bfd_handler_rejected_block_skipped:
  assumes "bfd_data st = Some l"
    and "length name \<ge> BFD_INAME_MAX c \<or> name \<in> iname ` set l"
  shows "bfds_of (bfd_handler c (Some [''bfd_instance'', name]) st) = Some l
       \<and> skipping (bfd_handler c (Some [''bfd_instance'', name]) st) = Some True
       \<and> process_block c (bfd_init_keywords c) ([''bfd_instance'', name], body) st
           = process_block c (bfd_init_keywords c) ([''bfd_instance'', name], []) st
       \<and> bfds_of (process_block c (bfd_init_keywords c) ([''bfd_instance'', name], body) st) = Some l
       \<and> selected_of (process_block c (bfd_init_keywords c) ([''bfd_instance'', name], body) st)
           = Some (specified_event_processes st)
       \<and> skipping (process_block c (bfd_init_keywords c) ([''bfd_instance'', name], body) st) = Some False"
proof -
  from bfd_handler_rejects [OF assms, of "''bfd_instance''"]
  obtain st' where h: "bfd_handler c (Some [''bfd_instance'', name]) st = Inr st'"
    and l: "bfd_data st' = Some l" and sk: "skip_pending st'"
    and sep: "specified_event_processes st' = specified_event_processes st"
    by blast
  from monitor_root [of c "[name]"]
  obtain k where k: "find_root (bfd_init_keywords c) [''bfd_instance'', name] = Some k"
    "kw_active k" "kw_handler k = Bfd_handler"
    by blast
  have pb: "process_block c (bfd_init_keywords c) ([''bfd_instance'', name], b) st
          = Inr (st'\<lparr>skip_pending := False\<rparr>)" for b
    by (rule process_block_skipped [where k = k]) (simp_all add: k h sk)
  show ?thesis
    by (simp add: pb h l sk sep bfds_of_def skipping_def selected_of_def)
qed

text \<open>A second block named \<^verbatim>\<open>a\<close>: its \<^verbatim>\<open>ttl\<close> line does not reach the first \<^verbatim>\<open>a\<close>.\<close>

theorem bfd_handler_rejected_block_skipped_witness:
  "bfd_data (sample_state sample_a) = Some [sample_a]
   \<and> ''a'' \<in> iname ` set [sample_a]
   \<and> bfds_of (process_block sample_env (bfd_init_keywords sample_env)
        ([''bfd_instance'', ''a''], [[''neighbor_ip'', ''192.0.2.9''], [''ttl'', ''9'']])
        (sample_state sample_a)) = Some [sample_a]"
proof -
  have l: "bfd_data (sample_state sample_a) = Some [sample_a]"
    by (simp add: sample_state_bfds)
  have d: "length ''a'' \<ge> BFD_INAME_MAX sample_env \<or> ''a'' \<in> iname ` set [sample_a]"
    by (simp add: sample_a_def)
  from bfd_handler_rejected_block_skipped [OF l d]
  have "bfds_of (process_block sample_env (bfd_init_keywords sample_env)
        ([''bfd_instance'', ''a''], [[''neighbor_ip'', ''192.0.2.9''], [''ttl'', ''9'']])
        (sample_state sample_a)) = Some [sample_a]"
    by blast
  with l show ?thesis by (simp add: sample_a_def)
qed

section \<open>Address lines in the monitor role\<close>

lemma find_bfd_by_addr_iff: "(find_bfd_by_addr a l = None) = (a \<notin> nbr_addr ` set l)"
  by (auto simp add: find_bfd_by_addr_def find_None_iff)

lemma bfd_nbrip_handler_fatal:
  assumes "bfd_data st = Some l" and "l \<noteq> []"
    and "inet_stosockaddr c s (Some (BFD_CONTROL_PORT c)) = None
         \<or> (\<exists>b \<in> set (butlast l). inet_stosockaddr c s (Some (BFD_CONTROL_PORT c)) = Some (nbr_addr b))"
  shows "\<exists>st'. bfd_nbrip_handler c (Some [kw, s]) st = Inr st'
           \<and> bfd_data st' = Some (butlast l) \<and> skip_pending st'"
  using assms
  by (auto simp add: bfd_nbrip_handler_def tail_of_nonempty vector_slot_def find_bfd_by_addr_iff
      skip_block_def log_message_def list_del_tail_def dest: in_set_butlastD)

lemma bfd_srcip_handler_soft:
  assumes "bfd_data st = Some l" and "l \<noteq> []" and "inet_stosockaddr c s None = None"
  shows "bfd_srcip_handler c (Some [kw, s]) st =
           Inr (log_message LOG_ERR ''BFD instance has malformed source address, ignoring'' st)"
  using assms
  by (simp add: bfd_srcip_handler_def tail_of_nonempty vector_slot_def)

text \<open>
  Claim C5. In a block of the monitor role that is being read, a \<^verbatim>\<open>neighbor_ip\<close> line
  whose address does not parse, or parses to the neighbor address of an instance
  earlier in the list, removes the instance being built from the list and asks for the
  rest of the block to be skipped: the line and everything after it have the effect of
  the handler alone, and the block closes with the list cut by its tail. A
  \<^verbatim>\<open>source_ip\<close> line whose address does not parse leaves the list as it is and asks
  for no skip: the lines after it are read as before, from a state that differs by the
  logged error only.
\<close>

theorem neighbor_failure_fatal_source_failure_not:
  assumes l: "bfd_data st = Some l" "l \<noteq> []" and ns: "\<not> skip_pending st"
    and k: "find_root (bfd_init_keywords c) [''bfd_instance'', name] = Some k"
  shows
    "(inet_stosockaddr c s (Some (BFD_CONTROL_PORT c)) = None
       \<or> (\<exists>b \<in> set (butlast l). inet_stosockaddr c s (Some (BFD_CONTROL_PORT c)) = Some (nbr_addr b))
      \<longrightarrow> bfds_of (bfd_nbrip_handler c (Some [''neighbor_ip'', s]) st) = Some (butlast l)
          \<and> skipping (bfd_nbrip_handler c (Some [''neighbor_ip'', s]) st) = Some True
          \<and> process_lines c (sub k) ([''neighbor_ip'', s] # rest) st
              = bfd_nbrip_handler c (Some [''neighbor_ip'', s]) st
          \<and> bfds_of (finish_block c k ([''neighbor_ip'', s] # rest) st) = Some (butlast l))
     \<and> (inet_stosockaddr c s None = None
      \<longrightarrow> bfds_of (bfd_srcip_handler c (Some [''source_ip'', s]) st) = Some l
          \<and> skipping (bfd_srcip_handler c (Some [''source_ip'', s]) st) = Some False
          \<and> process_lines c (sub k) ([''source_ip'', s] # rest) st
              = process_lines c (sub k) rest
                  (log_message LOG_ERR ''BFD instance has malformed source address, ignoring'' st))"
proof (intro conjI impI)
  from monitor_root [of c "[name]"] k
  have nk: "find_child (sub k) (''neighbor_ip'' # a) = Some Bfd_nbrip_handler"
    and sk: "find_child (sub k) (''source_ip'' # a) = Some Bfd_srcip_handler" for a
    by (auto simp add: find_child_def)
  {
    assume bad: "inet_stosockaddr c s (Some (BFD_CONTROL_PORT c)) = None
       \<or> (\<exists>b \<in> set (butlast l). inet_stosockaddr c s (Some (BFD_CONTROL_PORT c)) = Some (nbr_addr b))"
    from bfd_nbrip_handler_fatal [OF l bad, of "''neighbor_ip''"]
    obtain st' where h: "bfd_nbrip_handler c (Some [''neighbor_ip'', s]) st = Inr st'"
      and l': "bfd_data st' = Some (butlast l)" and sk': "skip_pending st'"
      by blast
    show "bfds_of (bfd_nbrip_handler c (Some [''neighbor_ip'', s]) st) = Some (butlast l)"
      by (simp add: h l' bfds_of_def)
    show "skipping (bfd_nbrip_handler c (Some [''neighbor_ip'', s]) st) = Some True"
      by (simp add: h sk' skipping_def)
    show pl: "process_lines c (sub k) ([''neighbor_ip'', s] # rest) st
              = bfd_nbrip_handler c (Some [''neighbor_ip'', s]) st"
      by (simp add: ns nk h process_line_def process_lines_skipping sk')
    show "bfds_of (finish_block c k ([''neighbor_ip'', s] # rest) st) = Some (butlast l)"
      unfolding finish_block_def pl h by (simp add: close_block_def sk' l' bfds_of_def)
  }
  {
    assume bad: "inet_stosockaddr c s None = None"
    note h = bfd_srcip_handler_soft [OF l bad, of "''source_ip''"]
    show "bfds_of (bfd_srcip_handler c (Some [''source_ip'', s]) st) = Some l"
      by (simp add: h l bfds_of_def log_message_def)
    show "skipping (bfd_srcip_handler c (Some [''source_ip'', s]) st) = Some False"
      by (simp add: h ns skipping_def log_message_def)
    show "process_lines c (sub k) ([''source_ip'', s] # rest) st
              = process_lines c (sub k) rest
                  (log_message LOG_ERR ''BFD instance has malformed source address, ignoring'' st)"
      by (simp add: ns sk h process_line_def)
  }
qed

text \<open>
  The block of \<^verbatim>\<open>b\<close> names the neighbor of \<^verbatim>\<open>a\<close>: \<^verbatim>\<open>b\<close> is removed. A source
  address that does not parse leaves both instances.
\<close>

theorem neighbor_failure_fatal_source_failure_not_witness:
  "bfds_of (bfd_nbrip_handler sample_env (Some [''neighbor_ip'', ''192.0.2.1'']) sample_two)
     = Some [sample_a]
   \<and> skipping (bfd_nbrip_handler sample_env (Some [''neighbor_ip'', ''192.0.2.1'']) sample_two)
     = Some True
   \<and> bfds_of (bfd_srcip_handler sample_env (Some [''source_ip'', ''nowhere'']) sample_two)
     = Some [sample_a, sample_bfd\<lparr>iname := ''b''\<rparr>]
   \<and> skipping (bfd_srcip_handler sample_env (Some [''source_ip'', ''nowhere'']) sample_two)
     = Some False"
proof -
  from monitor_root [of sample_env "[''b'']"]
  obtain k where k: "find_root (bfd_init_keywords sample_env) [''bfd_instance'', ''b''] = Some k"
    by blast
  have l: "bfd_data sample_two = Some [sample_a, sample_bfd\<lparr>iname := ''b''\<rparr>]"
    "[sample_a, sample_bfd\<lparr>iname := ''b''\<rparr>] \<noteq> []"
    by (simp_all add: sample_two_def)
  have ns: "\<not> skip_pending sample_two"
    by (simp add: sample_two_def load_start_def)
  have dup: "inet_stosockaddr sample_env ''192.0.2.1'' (Some (BFD_CONTROL_PORT sample_env))
               = Some (nbr_addr sample_a)"
    by (simp add: sample_env_def sample_stosockaddr_def isdigit_def sample_a_def sample_nbr_def)
  have bad: "inet_stosockaddr sample_env ''nowhere'' None = None"
    by (simp add: sample_env_def sample_stosockaddr_def isdigit_def)
  from neighbor_failure_fatal_source_failure_not [OF l ns k, of "''192.0.2.1''" "[]"] dup
  have n: "bfds_of (bfd_nbrip_handler sample_env (Some [''neighbor_ip'', ''192.0.2.1'']) sample_two)
             = Some [sample_a]"
    "skipping (bfd_nbrip_handler sample_env (Some [''neighbor_ip'', ''192.0.2.1'']) sample_two)
             = Some True"
    by simp_all
  from neighbor_failure_fatal_source_failure_not [OF l ns k, of "''nowhere''" "[]"] bad
  have "bfds_of (bfd_srcip_handler sample_env (Some [''source_ip'', ''nowhere'']) sample_two)
          = Some [sample_a, sample_bfd\<lparr>iname := ''b''\<rparr>]"
    "skipping (bfd_srcip_handler sample_env (Some [''source_ip'', ''nowhere'']) sample_two)
          = Some False"
    by simp_all
  with n show ?thesis by simp
qed

section \<open>Committed instances across a load of the monitor role\<close>

text \<open>
  Every handler of a child keyword in the monitor role's table works on the tail of the
  list only: it changes the instance being built, or removes it and asks for a skip.
  So the instances committed by earlier blocks are never touched again, and every
  instance in the list a load returns is one that the end of its block has validated.
\<close>

lemma monitor_handler_local:
  assumes "bfd_data st = Some (l @ [b])" and "\<not> skip_pending st"
    and "h \<notin> {Bfd_handler, Bfd_vrrp_handler, Bfd_checker_handler, Bfd_vrrp_weight_handler}"
  shows "building_result l (call_handler h c (Some sv) st)"
proof (cases h)
  case Bfd_srcip_handler
  with assms(1,2) show ?thesis
    by (auto simp add: building_result_def building_def bfd_srcip_handler_def LIST_TAIL_DATA_def
        set_tail_def log_message_def split: option.split)
next
  case Bfd_nbrip_handler
  with assms(1,2) show ?thesis
    by (auto simp add: building_result_def building_def bfd_nbrip_handler_def LIST_TAIL_DATA_def
        set_tail_def log_message_def skip_block_def list_del_tail_def split: option.split)
next
  case Bfd_minrx_handler
  with assms(1,2) show ?thesis
    by (auto simp add: building_result_def building_def bfd_minrx_handler_def LIST_TAIL_DATA_def
        set_tail_def log_message_def Let_def split: option.split prod.split)
next
  case Bfd_mintx_handler
  with assms(1,2) show ?thesis
    by (auto simp add: building_result_def building_def bfd_mintx_handler_def LIST_TAIL_DATA_def
        set_tail_def log_message_def Let_def split: option.split prod.split)
next
  case Bfd_idletx_handler
  with assms(1,2) show ?thesis
    by (auto simp add: building_result_def building_def bfd_idletx_handler_def LIST_TAIL_DATA_def
        set_tail_def log_message_def Let_def split: option.split prod.split)
next
  case Bfd_multiplier_handler
  with assms(1,2) show ?thesis
    by (auto simp add: building_result_def building_def bfd_multiplier_handler_def LIST_TAIL_DATA_def
        set_tail_def log_message_def split: option.split prod.split)
next
  case Bfd_passive_handler
  with assms(1,2) show ?thesis
    by (auto simp add: building_result_def building_def bfd_passive_handler_def LIST_TAIL_DATA_def
        set_tail_def)
next
  case Bfd_ttl_handler
  with assms(1,2) show ?thesis
    by (auto simp add: building_result_def building_def bfd_ttl_handler_def LIST_TAIL_DATA_def
        set_tail_def log_message_def split: option.split prod.split)
next
  case Bfd_maxhops_handler
  with assms(1,2) show ?thesis
    by (auto simp add: building_result_def building_def bfd_maxhops_handler_def LIST_TAIL_DATA_def
        set_tail_def log_message_def split: option.split prod.split)
next
  case Bfd_event_vrrp_handler
  with assms(1,2) show ?thesis
    by (auto simp add: building_result_def building_def bfd_event_vrrp_handler_def)
next
  case Bfd_event_checker_handler
  with assms(1,2) show ?thesis
    by (auto simp add: building_result_def building_def bfd_event_checker_handler_def)
next
  case Ignore_handler
  with assms(1,2) show ?thesis
    by (auto simp add: building_result_def building_def ignore_handler_def)
qed (use assms(3) in simp_all)

lemma monitor_children:
  assumes "find_root (bfd_init_keywords c) sv0 = Some k" and "map_of (sub k) kw = Some h"
  shows "h \<notin> {Bfd_handler, Bfd_vrrp_handler, Bfd_checker_handler, Bfd_vrrp_weight_handler}"
  using assms
  by (auto simp add: monitor_table find_root_def split: list.splits if_splits)

lemma monitor_lines_local:
  assumes k: "find_root (bfd_init_keywords c) sv0 = Some k"
  shows "building l st \<Longrightarrow> building_result l (process_lines c (sub k) body st)"
proof (induction body arbitrary: st)
  case Nil
  then show ?case by (simp add: building_result_def)
next
  case (Cons sv rest)
  show ?case
  proof (cases "skip_pending st")
    case True
    with Cons.prems show ?thesis by (simp add: building_result_def)
  next
    case False
    with Cons.prems obtain b where b: "bfd_data st = Some (l @ [b])"
      by (auto simp add: building_def)
    have step: "building_result l (process_line c (sub k) sv st)"
    proof (cases "find_child (sub k) sv")
      case None
      with Cons.prems show ?thesis by (simp add: process_line_def building_result_def)
    next
      case (Some h)
      then obtain kw where "map_of (sub k) kw = Some h"
        by (auto simp add: find_child_def split: list.splits)
      from monitor_handler_local [OF b False monitor_children [OF k this]] Some
      show ?thesis by (simp add: process_line_def)
    qed
    show ?thesis
    proof (cases "process_line c (sub k) sv st")
      case (Inl f)
      with False show ?thesis by (simp add: building_result_def)
    next
      case (Inr st1)
      with step have "building l st1" by (simp add: building_result_def)
      from Cons.IH [OF this] Inr False show ?thesis by simp
    qed
  qed
qed

lemma bfd_end_handler_commits:
  assumes "bfd_data st = Some (l @ [b])"
  shows "bfds_of (bfd_end_handler c st) = Some l
       \<or> (\<exists>b'. bfds_of (bfd_end_handler c st) = Some (l @ [b']) \<and> committed_ok b')"
  using assms
  by (auto simp add: bfd_end_handler_def bfds_of_def LIST_TAIL_DATA_def list_del_tail_def
      set_tail_def log_message_def committed_ok_def Let_def)

lemma monitor_block_commits:
  assumes "bfd_data st = Some l" and "\<not> skip_pending st"
  shows "case process_block c (bfd_init_keywords c) blk st of
           Inl f \<Rightarrow> True
         | Inr st' \<Rightarrow> \<not> skip_pending st'
             \<and> (bfd_data st' = Some l \<or> (\<exists>b. bfd_data st' = Some (l @ [b]) \<and> committed_ok b))"
proof (cases "find_root (bfd_init_keywords c) (fst blk)")
  case None
  with assms show ?thesis by (simp add: process_block_def)
next
  case (Some k)
  then have k: "kw_active k" "kw_handler k = Bfd_handler" "sub_close_handler k = Some Bfd_end_handler"
    by (auto simp add: monitor_table find_root_def split: list.splits if_splits)
  show ?thesis
  proof (cases "bfd_handler c (Some (fst blk)) st")
    case (Inl f)
    then show ?thesis by (simp add: process_block_def Some k)
  next
    case (Inr st1)
    with assms have b1: "building l st1"
      by (auto simp add: building_def bfd_handler_def check_new_bfd_def alloc_bfd_def
          skip_block_def log_message_def split: option.splits if_splits)
    show ?thesis
    proof (cases "process_lines c (sub k) (snd blk) st1")
      case (Inl f)
      then show ?thesis by (simp add: process_block_def Some k Inr finish_block_def)
    next
      case st2: (Inr st2)
      with monitor_lines_local [OF Some b1, of "snd blk"] have b2: "building l st2"
        by (simp add: building_result_def)
      have pb: "process_block c (bfd_init_keywords c) blk st = close_block c k st2"
        by (simp add: process_block_def Some k Inr finish_block_def st2)
      show ?thesis
      proof (cases "skip_pending st2")
        case True
        with b2 show ?thesis by (simp add: pb close_block_def building_def)
      next
        case False
        with b2 obtain b where b: "bfd_data st2 = Some (l @ [b])"
          by (auto simp add: building_def)
        have ns: "case bfd_end_handler c st2 of Inl f \<Rightarrow> True | Inr st' \<Rightarrow> \<not> skip_pending st'"
          using False
          by (auto simp add: bfd_end_handler_def log_message_def Let_def split: option.split)
        from bfd_end_handler_commits [OF b, of c] ns False show ?thesis
          by (auto simp add: pb close_block_def k bfds_of_def split: sum.splits)
      qed
    qed
  qed
qed

lemma monitor_stream_commits:
  assumes "bfd_data st = Some l" and "\<not> skip_pending st" and "list_all committed_ok l"
    and "process_stream c (bfd_init_keywords c) config st = Inr st'"
  shows "\<exists>l'. bfd_data st' = Some l' \<and> list_all committed_ok l'"
  using assms
proof (induction config arbitrary: st l)
  case Nil
  then show ?case by simp
next
  case (Cons blk rest)
  from Cons.prems(4) obtain st1 where st1: "process_block c (bfd_init_keywords c) blk st = Inr st1"
    and rest: "process_stream c (bfd_init_keywords c) rest st1 = Inr st'"
    by (auto split: sum.splits)
  from monitor_block_commits [OF Cons.prems(1,2), of c blk] st1
  have ns1: "\<not> skip_pending st1"
    and l1: "bfd_data st1 = Some l \<or> (\<exists>b. bfd_data st1 = Some (l @ [b]) \<and> committed_ok b)"
    by simp_all
  from l1 Cons.prems(3) obtain l1' where "bfd_data st1 = Some l1'" "list_all committed_ok l1'"
    by auto
  from Cons.IH [OF this(1) ns1 this(2) rest] show ?case .
qed

lemma monitor_load_commits:
  assumes "bfds_of (load c PROG_TYPE_BFD config a) = Some l"
  shows "list_all committed_ok l"
proof -
  from assms obtain st' where st': "load c PROG_TYPE_BFD config a = Inr st'" "bfd_data st' = Some l"
    by (auto simp add: bfds_of_def split: sum.splits)
  have "process_stream c (bfd_init_keywords c) config (load_start a) = Inr st'"
    using st'(1) by (simp add: load_def bfd_init_keywords_def)
  from monitor_stream_commits [OF _ _ _ this, of "[]"] st'(2) show ?thesis
    by (simp add: load_start_def)
qed

section \<open>A block in the redundancy role and in the checker role\<close>








text \<open>The tables of the two roles, the opening handlers on a new name, and the end
  handlers as functions of the accumulator.\<close>

lemma vrrp_table':
  assumes "WITH_VRRP c" and "WITH_LVS c"
  shows "init_bfd_keywords c PROG_TYPE_VRRP True [] =
     [\<lparr>kw_string = ''bfd_instance'', kw_handler = Bfd_vrrp_handler, kw_active = True,
       sub_close_handler = Some Bfd_vrrp_end_handler, sub = role_subs\<rparr>]"
  using vrrp_table [OF assms] by (simp add: role_subs_def)








section \<open>Role selection in the redundancy role and in the checker role\<close>

lemma sample_flags: "WITH_VRRP sample_env" "WITH_LVS sample_env"
  "DAEMON_VRRP sample_env = 0" "DAEMON_CHECKERS sample_env = 1"
  "VRRP_BNAME_SIZE sample_env = 32"
  by (simp_all add: sample_env_def)

text \<open>The definitions that run a load of the sample build on a concrete configuration.\<close>

lemmas run_defs = process_block_def find_root_def finish_block_def process_line_def
  find_child_def role_subs_def close_block_def load_start_def vector_slot_def
  list_del_tail_def LIST_TAIL_DATA_def set_tail_def log_message_def skip_block_def
  bfd_vrrp_handler_def bfd_vrrp_end_handler_def bfd_event_vrrp_handler_def
  bfd_checker_handler_def bfd_checker_end_handler_def bfd_event_checker_handler_def
  ignore_handler_def set_bit_ul_def test_bit_ul_def sample_flags




section \<open>The accumulator across blocks and across loads\<close>

text \<open>
  In the monitor role the opening handler either rejects the block, which is then
  skipped, or resets the accumulator; so what a load of the monitor role builds does not
  depend on the accumulator the load starts from.
\<close>

lemma agree_refl: "agree_but_selected r r"
  by (simp add: agree_but_selected_def split: sum.split)

lemma agree_bfds:
  assumes "agree_but_selected r1 r2"
  shows "bfds_of r2 = bfds_of r1"
proof (cases r1)
  case (Inl f)
  with assms show ?thesis by (simp add: agree_but_selected_def)
next
  case (Inr s1)
  with assms obtain s2 where r2: "r2 = Inr s2"
    and s2: "s2 = s1\<lparr>specified_event_processes := specified_event_processes s2\<rparr>"
    by (auto simp add: agree_but_selected_def split: sum.splits)
  from s2 have "bfd_data s2 = bfd_data (s1\<lparr>specified_event_processes := specified_event_processes s2\<rparr>)"
    by (rule arg_cong)
  then show ?thesis by (simp add: Inr r2 bfds_of_def)
qed

lemma bfd_handler_agree:
  "(\<exists>f. bfd_handler c (Some sv) st = Inl f \<and> bfd_handler c (Some sv) (st\<lparr>specified_event_processes := a\<rparr>) = Inl f)
   \<or> (\<exists>st'. bfd_handler c (Some sv) st = Inr st' \<and> skip_pending st'
         \<and> bfd_handler c (Some sv) (st\<lparr>specified_event_processes := a\<rparr>)
              = Inr (st'\<lparr>specified_event_processes := a\<rparr>))
   \<or> (\<exists>st'. bfd_handler c (Some sv) st = Inr st'
         \<and> bfd_handler c (Some sv) (st\<lparr>specified_event_processes := a\<rparr>) = Inr st')"
  by (auto simp add: bfd_handler_def check_new_bfd_def skip_block_def log_message_def
      split: option.split)

lemma monitor_block_agree:
  "agree_but_selected (process_block c (bfd_init_keywords c) blk st)
     (process_block c (bfd_init_keywords c) blk (st\<lparr>specified_event_processes := a\<rparr>))"
proof (cases "find_root (bfd_init_keywords c) (fst blk)")
  case None
  then show ?thesis by (simp add: process_block_def agree_but_selected_def)
next
  case (Some k)
  then have k: "kw_active k" "kw_handler k = Bfd_handler"
    by (auto simp add: monitor_table find_root_def split: list.splits if_splits)
  from bfd_handler_agree [of c "fst blk" st a]
  consider
    (fault) f where "bfd_handler c (Some (fst blk)) st = Inl f"
      "bfd_handler c (Some (fst blk)) (st\<lparr>specified_event_processes := a\<rparr>) = Inl f"
  | (skip) st' where "bfd_handler c (Some (fst blk)) st = Inr st'" "skip_pending st'"
      "bfd_handler c (Some (fst blk)) (st\<lparr>specified_event_processes := a\<rparr>)
         = Inr (st'\<lparr>specified_event_processes := a\<rparr>)"
  | (same) st' where "bfd_handler c (Some (fst blk)) st = Inr st'"
      "bfd_handler c (Some (fst blk)) (st\<lparr>specified_event_processes := a\<rparr>) = Inr st'"
    by blast
  then show ?thesis
  proof cases
    case fault
    then show ?thesis by (simp add: process_block_def Some k agree_but_selected_def)
  next
    case skip
    then show ?thesis
      by (simp add: process_block_def Some k finish_block_def process_lines_skipping
          close_block_def agree_but_selected_def)
  next
    case same
    then show ?thesis by (simp add: process_block_def Some k agree_refl)
  qed
qed

lemma monitor_stream_agree:
  "agree_but_selected (process_stream c (bfd_init_keywords c) config st)
     (process_stream c (bfd_init_keywords c) config (st\<lparr>specified_event_processes := a\<rparr>))"
proof (induction config arbitrary: st a)
  case Nil
  then show ?case by (simp add: agree_but_selected_def)
next
  case (Cons blk rest)
  show ?case
  proof (cases "process_block c (bfd_init_keywords c) blk st")
    case (Inl f)
    with monitor_block_agree [of c blk st a] show ?thesis
      by (simp add: agree_but_selected_def)
  next
    case (Inr s1)
    with monitor_block_agree [of c blk st a]
    obtain s2 where s2: "process_block c (bfd_init_keywords c) blk (st\<lparr>specified_event_processes := a\<rparr>) = Inr s2"
      "s2 = s1\<lparr>specified_event_processes := specified_event_processes s2\<rparr>"
      by (auto simp add: agree_but_selected_def split: sum.splits)
    from Cons.IH [of s1 "specified_event_processes s2"] s2(2)
    have "agree_but_selected (process_stream c (bfd_init_keywords c) rest s1)
            (process_stream c (bfd_init_keywords c) rest s2)"
      by simp
    then show ?thesis by (simp add: Inr s2(1))
  qed
qed

lemma monitor_load_deterministic:
  "bfds_of (load c PROG_TYPE_BFD config a) = bfds_of (load c PROG_TYPE_BFD config 0)"
proof -
  have "load_start a = (load_start 0)\<lparr>specified_event_processes := a\<rparr>"
    by (simp add: load_start_def)
  with monitor_stream_agree [of c config "load_start 0" a]
  have "agree_but_selected (load c PROG_TYPE_BFD config 0) (load c PROG_TYPE_BFD config a)"
    by (simp add: load_def bfd_init_keywords_def)
  then show ?thesis by (rule agree_bfds)
qed

lemma sample_stosockaddr_1: "sample_stosockaddr ''192.0.2.1'' p = Some \<lparr>ss_family = AF_INET, ss_data = ''192.0.2.1''\<rparr>"
  by (simp add: sample_stosockaddr_def isdigit_def)

lemma sample_stosockaddr_2: "sample_stosockaddr ''192.0.2.2'' p = Some \<lparr>ss_family = AF_INET, ss_data = ''192.0.2.2''\<rparr>"
  by (simp add: sample_stosockaddr_def isdigit_def)

lemma monitor_load_vrrp_then_checker:
  "map_option (map (\<lambda>b. (iname b, vrrp b, checker b)))
     (bfds_of (load sample_env PROG_TYPE_BFD config_vrrp_then_checker 0)) =
   Some [(''a'', True, False), (''b'', False, True)]"
proof -
  have t: "init_bfd_keywords sample_env PROG_TYPE_BFD True [] = bfd_init_keywords sample_env"
    by (simp add: bfd_init_keywords_def)
  have e: "inet_stosockaddr sample_env = sample_stosockaddr" "BFD_INAME_MAX sample_env = 32"
    "BFD_CONTROL_TTL sample_env = 255" "fresh_bfd sample_env = sample_bfd"
    by (simp_all add: sample_env_def)
  show ?thesis
    unfolding load_def t monitor_table config_vrrp_then_checker_def
    by (simp add: run_defs bfds_of_def bfd_handler_def check_new_bfd_def find_bfd_by_name_def
        alloc_bfd_def bfd_nbrip_handler_def find_bfd_by_addr_def bfd_end_handler_def e
        sample_stosockaddr_1 sample_stosockaddr_2
        zero_addr_def AF_INET_def sample_bfd_def Let_def)
qed

text \<open>
  Claim C2 holds of the monitor role only. On an accumulator that holds the bit of
  \<^verbatim>\<open>vrrp\<close>, the opening handler of the monitor role leaves 0; the opening handlers of
  the redundancy role and of the checker role leave it as it is. So for
  \<^verbatim>\<open>bfd_instance a { neighbor_ip 192.0.2.1  vrrp }  bfd_instance b { neighbor_ip 192.0.2.2  checker }\<close>
  the redundancy role reads both bits at the close of \<^verbatim>\<open>b\<close> and keeps its reference to
  \<^verbatim>\<open>b\<close>, while the monitor role, on the same text, marks \<^verbatim>\<open>b\<close> as not monitored by
  the redundancy role.
\<close>

theorem redundancy_role_accumulator_not_reset:
  "selected_of (bfd_handler sample_env (Some [''bfd_instance'', ''b'']) (load_start 1)) = Some 0
   \<and> selected_of (bfd_vrrp_handler sample_env (Some [''bfd_instance'', ''b'']) (load_start 1)) = Some 1
   \<and> selected_of (bfd_checker_handler sample_env (Some [''bfd_instance'', ''b'']) (load_start 1)) = Some 1
   \<and> vrrp_refs_of (load sample_env PROG_TYPE_VRRP config_vrrp_then_checker 0) =
       Some [\<lparr>bname = ''a'', weight = 0, bfd_up = False\<rparr>,
             \<lparr>bname = ''b'', weight = 0, bfd_up = False\<rparr>]
   \<and> map_option (map (\<lambda>b. (iname b, vrrp b, checker b)))
        (bfds_of (load sample_env PROG_TYPE_BFD config_vrrp_then_checker 0)) =
       Some [(''a'', True, False), (''b'', False, True)]"
proof -
  have 1: "selected_of (bfd_handler sample_env (Some [''bfd_instance'', ''b'']) (load_start 1)) = Some 0"
    by (simp add: selected_of_def bfd_handler_def check_new_bfd_def vector_slot_def
        find_bfd_by_name_def load_start_def sample_env_def)
  have 2: "selected_of (bfd_vrrp_handler sample_env (Some [''bfd_instance'', ''b'']) (load_start 1)) = Some 1"
    "selected_of (bfd_checker_handler sample_env (Some [''bfd_instance'', ''b'']) (load_start 1)) = Some 1"
    by (simp_all add: selected_of_def bfd_vrrp_handler_def bfd_checker_handler_def vector_slot_def
        load_start_def sample_flags)
  have 3: "vrrp_refs_of (load sample_env PROG_TYPE_VRRP config_vrrp_then_checker 0) =
       Some [\<lparr>bname = ''a'', weight = 0, bfd_up = False\<rparr>,
             \<lparr>bname = ''b'', weight = 0, bfd_up = False\<rparr>]"
    unfolding load_def vrrp_table' [OF sample_flags(1,2)] config_vrrp_then_checker_def
    by (simp add: run_defs vrrp_refs_of_def)
  from 1 2 3 monitor_load_vrrp_then_checker show ?thesis by simp
qed

text \<open>
  Claim C3 fails in the redundancy role. The first load of
  \<^verbatim>\<open>bfd_instance a { }  bfd_instance b { checker }\<close> in a process tracks \<^verbatim>\<open>a\<close> and leaves
  the bit of \<^verbatim>\<open>checker\<close> in the accumulator; a second load of the same text in that
  process starts from that accumulator and tracks nothing. (In the monitor role the
  two loads agree: lemma \<open>monitor_load_deterministic\<close>.)
\<close>

theorem redundancy_role_second_load_differs:
  "vrrp_refs_of (load sample_env PROG_TYPE_VRRP config_none_then_checker 0) =
     Some [\<lparr>bname = ''a'', weight = 0, bfd_up = False\<rparr>]
   \<and> selected_of (load sample_env PROG_TYPE_VRRP config_none_then_checker 0) = Some 2
   \<and> vrrp_refs_of (load sample_env PROG_TYPE_VRRP config_none_then_checker 2) = Some []"
  unfolding load_def vrrp_table' [OF sample_flags(1,2)] config_none_then_checker_def
  by (simp add: run_defs vrrp_refs_of_def selected_of_def)

section \<open>The weight keyword in the checker role\<close>


lemma bfd_vrrp_weight_handler_writes_tail:
  assumes "vrrp_data st = Some l" and "l \<noteq> []" and "strtol s = (v, [])"
    and "- 253 \<le> v" and "v \<le> 253"
  shows "bfd_vrrp_weight_handler c (Some [kw, s]) st
           = Inr (st\<lparr>vrrp_data := Some (butlast l @ [(last l)\<lparr>weight := v\<rparr>])\<rparr>)"
  using assms
  by (simp add: bfd_vrrp_weight_handler_def tail_of_nonempty vector_slot_def set_tail_def)









end
